theory Spec2Isabelle
  imports Complex_Main "HOL-Library.Word"
begin

text \<open>
  A model of the class \<open>ArxivApi\<close>: \<open>fetchArxivMetadata\<close> with \<open>parseArxivResponse\<close> and
  \<open>formatAbstract\<close>, and \<open>fetchCitationInfo\<close> with \<open>getInfluentialPapers\<close>. What the class
  takes from outside is a parameter of the model: \<open>extractArxivId\<close>, \<open>requestUrl\<close>, the
  parser behind \<open>DOMParser\<close>, \<open>JSON.parse\<close> and the printing of numbers. An exception is
  the \<open>Inl\<close> of a sum type.
\<close>

section \<open>Strings of the source language\<close>

text \<open>
  A TypeScript string is a sequence of UTF-16 code units. The Korean literals of
  \<open>ArxivApi\<close> lie outside ASCII, and \<open>trim\<close> and the class \<open>\s\<close> are defined on
  code units, so a string is a list of 16-bit words; ASCII literals are written
  through \<open>ascii\<close>.
\<close>

type_synonym jschar = "16 word"
type_synonym jsstring = "jschar list"

definition ascii :: "string \<Rightarrow> jsstring" where
  "ascii s = map of_char s"

definition LF :: jschar where
  "LF = 0x000A"

definition SPACE :: jschar where
  "SPACE = 0x0020"

text \<open>
  ECMAScript's WhiteSpace and LineTerminator code units: the set that both
  \<open>String.prototype.trim\<close> and the regular-expression class \<open>\s\<close> use (TAB, LF, VT, FF,
  CR, SP, NBSP, the Unicode space separators, LS, PS and the byte order mark).
\<close>

definition is_ws :: "jschar \<Rightarrow> bool" where
  "is_ws c \<longleftrightarrow>
     c \<in> {0x0009, 0x000A, 0x000B, 0x000C, 0x000D, 0x0020, 0x00A0, 0x1680,
          0x2028, 0x2029, 0x202F, 0x205F, 0x3000, 0xFEFF}
     \<or> (0x2000 \<le> c \<and> c \<le> 0x200A)"

definition is_lf :: "jschar \<Rightarrow> bool" where
  "is_lf c \<longleftrightarrow> c = LF"

text \<open>\<open>s.trim()\<close>: whitespace removed from both ends.\<close>

definition trim :: "jsstring \<Rightarrow> jsstring" where
  "trim s = rev (dropWhile is_ws (rev (dropWhile is_ws s)))"

text \<open>
  \<open>s.replace(/C+/g, r)\<close> for a character class \<open>C\<close> and a one-unit replacement \<open>r\<close>:
  scanning from the left, every maximal run of units of the class becomes \<open>r\<close>.
\<close>

function replace_runs :: "('a \<Rightarrow> bool) \<Rightarrow> 'a \<Rightarrow> 'a list \<Rightarrow> 'a list" where
  "replace_runs p r [] = []"
| "replace_runs p r (c # cs) =
     (if p c then r # replace_runs p r (dropWhile p cs) else c # replace_runs p r cs)"
  by pat_completeness auto
termination
  by (relation "measure (\<lambda>(p, r, cs). length cs)")
     (auto simp: less_Suc_eq_le length_dropWhile_le)

text \<open>
  \<open>s.split(sep)\<close> for a one-unit separator: the pieces between the separators; the
  empty string gives one empty piece.
\<close>

fun split_on :: "'a \<Rightarrow> 'a list \<Rightarrow> 'a list list" where
  "split_on sep [] = [[]]"
| "split_on sep (c # cs) =
     (if c = sep then [] # split_on sep cs
      else (case split_on sep cs of
              [] \<Rightarrow> [[c]]
            | piece # pieces \<Rightarrow> (c # piece) # pieces))"

text \<open>\<open>parts.join(sep)\<close> on an array of strings.\<close>

fun join :: "'a list \<Rightarrow> 'a list list \<Rightarrow> 'a list" where
  "join sep [] = []"
| "join sep [x] = x"
| "join sep (x # y # ys) = x @ sep @ join sep (y # ys)"

section \<open>Abstract normalization\<close>

text \<open>
  \<^verbatim>\<open>
  private formatAbstract(text: string): string {
      return text.trim()
          .replace(/\n+/g, '\n')
          .replace(/\s+/g, ' ')
          .split('\n')
          .map(para => para.trim())
          .join('\n\n');
  }
  \<close>
\<close>

definition formatAbstract :: "jsstring \<Rightarrow> jsstring" where
  "formatAbstract text =
     join [LF, LF]
       (map trim
         (split_on LF
           (replace_runs is_ws SPACE
             (replace_runs is_lf LF
               (trim text)))))"

section \<open>Errors and the HTTP transport\<close>

text \<open>
  The source raises plain \<open>Error\<close> objects; the constructors name the three it raises
  itself by the kind of failure: \<open>InvalidInput\<close> for the message of line 9,
  \<open>UpstreamError\<close> with the interpolated status for line 22 and \<open>NotFound\<close> for line
  61. \<open>TransportError\<close> is an exception of \<open>requestUrl\<close> itself, \<open>SyntaxError\<close> the one
  of \<open>JSON.parse\<close>, and \<open>TypeError\<close> the one of reading a property of \<open>null\<close> or
  \<open>undefined\<close> or of calling something that is not a function.
\<close>

datatype error =
    InvalidInput
  | UpstreamError int
  | NotFound
  | TransportError jsstring
  | SyntaxError
  | TypeError

record request =
  req_url :: jsstring
  req_headers :: "(jsstring \<times> jsstring) list"

record response =
  status :: int
  resp_text :: jsstring

text \<open>
  \<open>requestUrl\<close> belongs to the host application: it either throws (\<open>Inl\<close>, with the
  exception's message) or resolves to a response.
\<close>

type_synonym transport = "request \<Rightarrow> jsstring + response"

section \<open>The XML document\<close>

text \<open>
  The result of \<open>DOMParser.parseFromString(xmlText, "text/xml")\<close>, which never throws:
  a document is the list of its child nodes. An element carries its local name and its
  children; attributes play no part in the selectors and the text that the source reads.
\<close>

datatype xnode =
    Element jsstring "xnode list"
  | Text jsstring
  | Comment jsstring

text \<open>
  \<open>textContent\<close> of an element: the data of its descendant text nodes in tree order,
  comments left out.
\<close>

fun textContent :: "xnode \<Rightarrow> jsstring" where
  "textContent (Element name kids) = concat (map textContent kids)"
| "textContent (Text s) = s"
| "textContent (Comment s) = []"

text \<open>
  An element in its place: the names of its ancestors (nearest first) and the node.
  \<open>descendants\<close> lists the element descendants of a node list in tree order.
\<close>

type_synonym elem = "jsstring list \<times> xnode"

function descendants :: "jsstring list \<Rightarrow> xnode list \<Rightarrow> elem list" where
  "descendants anc [] = []"
| "descendants anc (Element name kids # rest) =
     (anc, Element name kids) # descendants (name # anc) kids @ descendants anc rest"
| "descendants anc (Text s # rest) = descendants anc rest"
| "descendants anc (Comment s # rest) = descendants anc rest"
  by pat_completeness auto
termination
  by (relation "measure (\<lambda>(anc, nodes). size_list size nodes)") auto

fun node_name :: "xnode \<Rightarrow> jsstring" where
  "node_name (Element name kids) = name"
| "node_name (Text s) = []"
| "node_name (Comment s) = []"

definition doc_elements :: "xnode list \<Rightarrow> elem list" where
  "doc_elements doc = descendants [] doc"

fun sub_elements :: "elem \<Rightarrow> elem list" where
  "sub_elements (anc, Element name kids) = descendants (name # anc) kids"
| "sub_elements (anc, Text s) = []"
| "sub_elements (anc, Comment s) = []"

text \<open>
  \<open>scope.querySelector('T')\<close> is the first descendant element of the scope named \<open>T\<close>;
  \<open>scope.querySelectorAll('A T')\<close> is every descendant element of the scope that is
  named \<open>T\<close> and has an ancestor named \<open>A\<close> (the selector is matched against the whole
  tree, so the ancestor may lie above the scope).
\<close>

definition querySelector :: "jsstring \<Rightarrow> elem list \<Rightarrow> elem option" where
  "querySelector t els = find (\<lambda>(anc, e). node_name e = t) els"

definition querySelectorAll2 :: "jsstring \<Rightarrow> jsstring \<Rightarrow> elem list \<Rightarrow> elem list" where
  "querySelectorAll2 a t els = filter (\<lambda>(anc, e). node_name e = t \<and> a \<in> set anc) els"

section \<open>Metadata retrieval\<close>

record arxiv_metadata =
  title :: jsstring
  paperLink :: jsstring
  publishDate :: jsstring
  authors :: jsstring
  abstract :: jsstring

text \<open>The three Korean fallback literals of \<open>parseArxivResponse\<close>, as code units.\<close>

definition no_title :: jsstring where
  "no_title = [0xC81C, 0xBAA9, 0x0020, 0xC5C6, 0xC74C]"

definition no_date :: jsstring where
  "no_date = [0xB0A0, 0xC9DC, 0x0020, 0xC5C6, 0xC74C]"

definition no_abstract :: jsstring where
  "no_abstract = ascii ''Abstract '' @ [0xC5C6, 0xC74C]"

text \<open>\<open>v || d\<close> for a \<open>v\<close> that is a string or \<open>undefined\<close>: the empty string is falsy.\<close>

definition or_default :: "jsstring option \<Rightarrow> jsstring \<Rightarrow> jsstring" where
  "or_default v d = (case v of None \<Rightarrow> d | Some s \<Rightarrow> if s = [] then d else s)"

text \<open>\<open>pieces[0]\<close>: \<open>undefined\<close> on an empty array.\<close>

definition first_piece :: "jsstring list \<Rightarrow> jsstring option" where
  "first_piece pieces = (case pieces of [] \<Rightarrow> None | p # _ \<Rightarrow> Some p)"

text \<open>
  \<^verbatim>\<open>
  return {
      title: entry.querySelector('title')?.textContent?.trim() || '...',
      paperLink: entry.querySelector('id')?.textContent || '',
      publishDate: entry.querySelector('published')?.textContent?.split('T')[0] || '...',
      authors: Array.from(entry.querySelectorAll('author name'))
          .map(author => author.textContent)
          .join(', '),
      abstract: this.formatAbstract(entry.querySelector('summary')?.textContent || '...')
  };
  \<close>
\<close>

definition parse_entry :: "elem \<Rightarrow> arxiv_metadata" where
  "parse_entry entry =
     \<lparr> title =
         or_default
           (map_option (\<lambda>e. trim (textContent (snd e)))
              (querySelector (ascii ''title'') (sub_elements entry)))
           no_title,
       paperLink =
         or_default
           (map_option (\<lambda>e. textContent (snd e))
              (querySelector (ascii ''id'') (sub_elements entry)))
           [],
       publishDate =
         or_default
           (Option.bind (querySelector (ascii ''published'') (sub_elements entry))
              (\<lambda>e. first_piece (split_on (of_char CHR ''T'') (textContent (snd e)))))
           no_date,
       authors =
         join (ascii '', '')
           (map (\<lambda>author. textContent (snd author))
              (querySelectorAll2 (ascii ''author'') (ascii ''name'') (sub_elements entry))),
       abstract =
         formatAbstract
           (or_default
              (map_option (\<lambda>e. textContent (snd e))
                 (querySelector (ascii ''summary'') (sub_elements entry)))
              no_abstract) \<rparr>"

definition parseArxivResponse :: "(jsstring \<Rightarrow> xnode list) \<Rightarrow> jsstring \<Rightarrow> error + arxiv_metadata" where
  "parseArxivResponse parseFromString xmlText =
     (let xmlDoc = parseFromString xmlText in
      case querySelector (ascii ''entry'') (doc_elements xmlDoc) of
        None \<Rightarrow> Inl NotFound
      | Some entry \<Rightarrow> Inr (parse_entry entry))"

text \<open>
  \<open>extractArxivId\<close> is imported from \<open>../utils/urlUtils\<close> and is a parameter here; it
  returns a string or \<open>null\<close>. \<open>falsy_id\<close> is \<open>!arxivId\<close>, which holds for \<open>null\<close> and
  for the empty string.
\<close>

definition falsy_id :: "jsstring option \<Rightarrow> bool" where
  "falsy_id arxivId = (case arxivId of None \<Rightarrow> True | Some s \<Rightarrow> s = [])"

definition metadata_request :: "jsstring \<Rightarrow> request" where
  "metadata_request arxivId =
     \<lparr> req_url = ascii ''https://export.arxiv.org/api/query?id_list='' @ arxivId,
       req_headers = [(ascii ''User-Agent'', ascii ''ObsidianArxivPlugin/1.0'')] \<rparr>"

definition fetchArxivMetadata ::
  "(jsstring \<Rightarrow> jsstring option) \<Rightarrow> transport \<Rightarrow> (jsstring \<Rightarrow> xnode list) \<Rightarrow> jsstring
     \<Rightarrow> error + arxiv_metadata" where
  "fetchArxivMetadata extractArxivId requestUrl parseFromString url =
     (case extractArxivId url of
        None \<Rightarrow> Inl InvalidInput
      | Some arxivId \<Rightarrow>
          if arxivId = [] then Inl InvalidInput
          else
            (case requestUrl (metadata_request arxivId) of
               Inl msg \<Rightarrow> Inl (TransportError msg)
             | Inr response \<Rightarrow>
                 if status response \<noteq> 200 then Inl (UpstreamError (status response))
                 else parseArxivResponse parseFromString (resp_text response)))"

section \<open>JSON values\<close>

text \<open>
  What \<open>JSON.parse\<close> returns, with \<open>undefined\<close> added for a property that is not
  there. A number is a rational: every finite double is one, and the source only tests
  numbers for truthiness and passes them on. An object lists its pairs in the order of
  the JSON text; of a repeated key the last pair counts, as in \<open>JSON.parse\<close>.
\<close>

datatype jsval =
    JUndefined
  | JNull
  | JBool bool
  | JNum rat
  | JStr jsstring
  | JArr "jsval list"
  | JObj "(jsstring \<times> jsval) list"

fun truthy :: "jsval \<Rightarrow> bool" where
  "truthy JUndefined = False"
| "truthy JNull = False"
| "truthy (JBool b) = b"
| "truthy (JNum r) = (r \<noteq> 0)"
| "truthy (JStr s) = (s \<noteq> [])"
| "truthy (JArr xs) = True"
| "truthy (JObj kvs) = True"

fun nullish :: "jsval \<Rightarrow> bool" where
  "nullish JUndefined = True"
| "nullish JNull = True"
| "nullish v = False"

text \<open>
  \<open>v.k\<close> for a \<open>v\<close> that is neither \<open>null\<close> nor \<open>undefined\<close> and a name \<open>k\<close> that no
  prototype defines, as all the names are that the source reads: an own property of an
  object, \<open>undefined\<close> otherwise. On \<open>null\<close> and \<open>undefined\<close> the read throws, which
  \<open>get_prop\<close> adds.
\<close>

fun own_prop :: "jsval \<Rightarrow> jsstring \<Rightarrow> jsval" where
  "own_prop (JObj kvs) k = (case map_of (rev kvs) k of None \<Rightarrow> JUndefined | Some v \<Rightarrow> v)"
| "own_prop v k = JUndefined"

definition get_prop :: "jsval \<Rightarrow> jsstring \<Rightarrow> error + jsval" where
  "get_prop v k = (if nullish v then Inl TypeError else Inr (own_prop v k))"

text \<open>
  The string that \<open>Array.prototype.join\<close> makes of an element: empty for \<open>undefined\<close>
  and \<open>null\<close>, \<open>ToString\<close> otherwise. An array joins its own elements with a comma. An
  object of \<open>JSON.parse\<close> prints as \<open>[object Object]\<close> through the inherited method,
  unless it has an own property \<open>toString\<close>: that is no function, and neither it nor
  \<open>valueOf\<close> gives a primitive, so the conversion throws a \<open>TypeError\<close>.
  \<open>Number::toString\<close> is the platform's and is a parameter.
\<close>

fun unprintable :: "jsval \<Rightarrow> bool" where
  "unprintable (JObj kvs) = (map_of (rev kvs) (ascii ''toString'') \<noteq> None)"
| "unprintable (JArr xs) = list_ex unprintable xs"
| "unprintable v = False"

fun element_text :: "(rat \<Rightarrow> jsstring) \<Rightarrow> jsval \<Rightarrow> jsstring" where
  "element_text numstr JUndefined = []"
| "element_text numstr JNull = []"
| "element_text numstr (JBool b) = (if b then ascii ''true'' else ascii ''false'')"
| "element_text numstr (JNum r) = numstr r"
| "element_text numstr (JStr s) = s"
| "element_text numstr (JArr xs) = join (ascii '','') (map (element_text numstr) xs)"
| "element_text numstr (JObj kvs) = ascii ''[object Object]''"

definition to_str :: "(rat \<Rightarrow> jsstring) \<Rightarrow> jsval \<Rightarrow> error + jsstring" where
  "to_str numstr v = (if unprintable v then Inl TypeError else Inr (element_text numstr v))"

text \<open>A callback that may throw, run over an array from the left.\<close>

fun filter_err :: "('a \<Rightarrow> error + bool) \<Rightarrow> 'a list \<Rightarrow> error + 'a list" where
  "filter_err f [] = Inr []"
| "filter_err f (x # xs) =
     (case f x of
        Inl e \<Rightarrow> Inl e
      | Inr keep \<Rightarrow>
          (case filter_err f xs of
             Inl e \<Rightarrow> Inl e
           | Inr ys \<Rightarrow> Inr (if keep then x # ys else ys)))"

fun map_err :: "('a \<Rightarrow> error + 'b) \<Rightarrow> 'a list \<Rightarrow> error + 'b list" where
  "map_err f [] = Inr []"
| "map_err f (x # xs) =
     (case f x of
        Inl e \<Rightarrow> Inl e
      | Inr y \<Rightarrow> (case map_err f xs of Inl e \<Rightarrow> Inl e | Inr ys \<Rightarrow> Inr (y # ys)))"

section \<open>Citation retrieval\<close>

text \<open>
  The fields of an \<open>InfluentialPaper\<close> carry the prefix \<open>ip_\<close>: several of their names
  are also names of fields of \<open>ArxivMetadataType\<close> and of parameters of the source.
\<close>

record influential_paper =
  ip_paperId :: jsval
  ip_title :: jsval
  ip_url :: jsval
  ip_venue :: jsval
  ip_year :: jsval
  ip_authors :: jsstring
  ip_arxivId :: jsval
  ip_doi :: jsval
  ip_isInfluential :: jsval
  ip_citationCount :: jsval
  ip_intent :: jsval

record citation_info =
  numCitedBy :: jsval
  numCiting :: jsval
  influentialCitations :: "influential_paper list"
  influentialReferences :: "influential_paper list"

text \<open>
  \<open>paper.authors?.map((author: any) => author.name).join(', ') || ''\<close>: the chain stops
  at a missing or \<open>null\<close> author list; only an array has \<open>map\<close>.
\<close>

definition authors_of :: "(rat \<Rightarrow> jsstring) \<Rightarrow> jsval \<Rightarrow> error + jsstring" where
  "authors_of numstr paper =
     (let as = own_prop paper (ascii ''authors'') in
      if nullish as then Inr []
      else
        (case as of
           JArr author_list \<Rightarrow>
             (case map_err (\<lambda>author. get_prop author (ascii ''name'')) author_list of
                Inl e \<Rightarrow> Inl e
              | Inr names \<Rightarrow>
                  (case map_err (to_str numstr) names of
                     Inl e \<Rightarrow> Inl e
                   | Inr texts \<Rightarrow> Inr (or_default (Some (join (ascii '', '') texts)) [])))
         | _ \<Rightarrow> Inl TypeError))"

text \<open>The object literal of the \<open>map\<close> callback, lines 87 to 99.\<close>

definition reshape :: "(rat \<Rightarrow> jsstring) \<Rightarrow> jsval \<Rightarrow> error + influential_paper" where
  "reshape numstr paper =
     (if nullish paper then Inl TypeError
      else
        (case authors_of numstr paper of
           Inl e \<Rightarrow> Inl e
         | Inr names \<Rightarrow>
             Inr \<lparr> ip_paperId = own_prop paper (ascii ''paperId''),
                   ip_title = own_prop paper (ascii ''title''),
                   ip_url = own_prop paper (ascii ''url''),
                   ip_venue = own_prop paper (ascii ''venue''),
                   ip_year = own_prop paper (ascii ''year''),
                   ip_authors = names,
                   ip_arxivId = own_prop paper (ascii ''arxivId''),
                   ip_doi = own_prop paper (ascii ''doi''),
                   ip_isInfluential = own_prop paper (ascii ''isInfluential''),
                   ip_citationCount = own_prop paper (ascii ''citationCount''),
                   ip_intent = own_prop paper (ascii ''intent'') \<rparr>))"

text \<open>
  \<^verbatim>\<open>
  private getInfluentialPapers(papers: any[]): any[] {
      return papers
          ?.filter(paper => paper.isInfluential)
          .map(paper => ({ ... })) || [];
  }
  \<close>
  On \<open>undefined\<close> or \<open>null\<close> the optional chain gives \<open>undefined\<close> and the result is
  \<open>[]\<close>; a value that is not an array has no \<open>filter\<close> to call. The mapped array is
  truthy, so \<open>|| []\<close> leaves it as it is.
\<close>

definition is_influential :: "jsval \<Rightarrow> error + bool" where
  "is_influential paper =
     (case get_prop paper (ascii ''isInfluential'') of
        Inl e \<Rightarrow> Inl e
      | Inr v \<Rightarrow> Inr (truthy v))"

definition getInfluentialPapers ::
  "(rat \<Rightarrow> jsstring) \<Rightarrow> jsval \<Rightarrow> error + influential_paper list" where
  "getInfluentialPapers numstr papers =
     (if nullish papers then Inr []
      else
        (case papers of
           JArr ps \<Rightarrow>
             (case filter_err is_influential ps of
                Inl e \<Rightarrow> Inl e
              | Inr kept \<Rightarrow> map_err (reshape numstr) kept)
         | _ \<Rightarrow> Inl TypeError))"

definition zero_citation_info :: citation_info where
  "zero_citation_info =
     \<lparr> numCitedBy = JNum 0, numCiting = JNum 0,
       influentialCitations = [], influentialReferences = [] \<rparr>"

text \<open>\<open>v || 0\<close>.\<close>

definition or_zero :: "jsval \<Rightarrow> jsval" where
  "or_zero v = (if truthy v then v else JNum 0)"

definition citation_request :: "jsstring \<Rightarrow> request" where
  "citation_request arxivId =
     \<lparr> req_url = ascii ''https://api.semanticscholar.org/v1/paper/'' @ (ascii ''arXiv:'' @ arxivId),
       req_headers = [] \<rparr>"

text \<open>
  The object literal of lines 36 to 41, its properties evaluated in order; the first read
  of a property of \<open>data\<close> throws when \<open>data\<close> is \<open>null\<close>.
\<close>

definition citation_of :: "(rat \<Rightarrow> jsstring) \<Rightarrow> jsval \<Rightarrow> error + citation_info" where
  "citation_of numstr data =
     (case get_prop data (ascii ''numCitedBy'') of
        Inl e \<Rightarrow> Inl e
      | Inr cited \<Rightarrow>
     (case get_prop data (ascii ''numCiting'') of
        Inl e \<Rightarrow> Inl e
      | Inr citing \<Rightarrow>
     (case getInfluentialPapers numstr (own_prop data (ascii ''citations'')) of
        Inl e \<Rightarrow> Inl e
      | Inr cits \<Rightarrow>
     (case getInfluentialPapers numstr (own_prop data (ascii ''references'')) of
        Inl e \<Rightarrow> Inl e
      | Inr refs \<Rightarrow>
          Inr \<lparr> numCitedBy = or_zero cited, numCiting = or_zero citing,
                influentialCitations = cits, influentialReferences = refs \<rparr>))))"

text \<open>
  The body of the \<open>try\<close> block: \<open>Inl\<close> is an exception on its way to the \<open>catch\<close>,
  \<open>Inr None\<close> is falling out of the block (status other than 200), \<open>Inr (Some c)\<close> is
  the \<open>return\<close> inside it. \<open>JSON.parse\<close> is a parameter: \<open>None\<close> is its \<open>SyntaxError\<close>.
\<close>

definition try_block ::
  "transport \<Rightarrow> (jsstring \<Rightarrow> jsval option) \<Rightarrow> (rat \<Rightarrow> jsstring) \<Rightarrow> jsstring
     \<Rightarrow> error + citation_info option" where
  "try_block requestUrl json_parse numstr arxivId =
     (case requestUrl (citation_request arxivId) of
        Inl msg \<Rightarrow> Inl (TransportError msg)
      | Inr response \<Rightarrow>
          if status response = 200 then
            (case json_parse (resp_text response) of
               None \<Rightarrow> Inl SyntaxError
             | Some data \<Rightarrow>
                 (case citation_of numstr data of
                    Inl e \<Rightarrow> Inl e
                  | Inr c \<Rightarrow> Inr (Some c)))
          else Inr None)"

text \<open>
  \<open>fetchCitationInfo\<close>: the \<open>catch\<close> logs and falls through to the final \<open>return\<close> of
  the zero value, as does a block that ended without returning.
\<close>

definition fetchCitationInfo ::
  "transport \<Rightarrow> (jsstring \<Rightarrow> jsval option) \<Rightarrow> (rat \<Rightarrow> jsstring) \<Rightarrow> jsstring
     \<Rightarrow> error + citation_info" where
  "fetchCitationInfo requestUrl json_parse numstr arxivId =
     (case try_block requestUrl json_parse numstr arxivId of
        Inl caught \<Rightarrow> Inr zero_citation_info
      | Inr None \<Rightarrow> Inr zero_citation_info
      | Inr (Some c) \<Rightarrow> Inr c)"

section \<open>Predicates of the statements\<close>

text \<open>A string without whitespace at either end.\<close>

definition trimmed :: "jsstring \<Rightarrow> bool" where
  "trimmed s \<longleftrightarrow> s = [] \<or> (\<not> is_ws (hd s) \<and> \<not> is_ws (last s))"



text \<open>
  A raw paper record of the citation source: an object whose \<open>authors\<close> property is
  missing, \<open>null\<close> or an array of author objects, the name of each a value that
  \<open>join\<close> can print.
\<close>

fun is_object :: "jsval \<Rightarrow> bool" where
  "is_object (JObj kvs) = True"
| "is_object v = False"

definition raw_paper :: "jsval \<Rightarrow> bool" where
  "raw_paper p \<longleftrightarrow>
     is_object p \<and>
     (case own_prop p (ascii ''authors'') of
        JUndefined \<Rightarrow> True
      | JNull \<Rightarrow> True
      | JArr author_list \<Rightarrow>
          list_all (\<lambda>a. is_object a \<and> \<not> unprintable (own_prop a (ascii ''name''))) author_list
      | _ \<Rightarrow> False)"

text \<open>
  From the specification's words: a retained record is reshaped into the attributes of
  an \<open>InfluentialPaper\<close>, its author list flattened to the names joined with a comma
  and a space, empty when the list is missing.
\<close>

definition spec_author_names :: "(rat \<Rightarrow> jsstring) \<Rightarrow> jsval \<Rightarrow> jsstring" where
  "spec_author_names numstr p =
     (case own_prop p (ascii ''authors'') of
        JArr author_list \<Rightarrow>
          join (ascii '', '')
            (map (\<lambda>a. element_text numstr (own_prop a (ascii ''name''))) author_list)
      | _ \<Rightarrow> [])"

definition spec_influential_paper :: "(rat \<Rightarrow> jsstring) \<Rightarrow> jsval \<Rightarrow> influential_paper" where
  "spec_influential_paper numstr p =
     \<lparr> ip_paperId = own_prop p (ascii ''paperId''),
       ip_title = own_prop p (ascii ''title''),
       ip_url = own_prop p (ascii ''url''),
       ip_venue = own_prop p (ascii ''venue''),
       ip_year = own_prop p (ascii ''year''),
       ip_authors = spec_author_names numstr p,
       ip_arxivId = own_prop p (ascii ''arxivId''),
       ip_doi = own_prop p (ascii ''doi''),
       ip_isInfluential = own_prop p (ascii ''isInfluential''),
       ip_citationCount = own_prop p (ascii ''citationCount''),
       ip_intent = own_prop p (ascii ''intent'') \<rparr>"

section \<open>Example inputs\<close>

text \<open>
  The inputs at which the statements below are instantiated: a feed whose entry has
  every field, one whose entry has no child element and one whose entry has its four
  single elements with blank or no text, each with the text it is parsed from; a
  stand-in for \<open>extractArxivId\<close> that knows one URL; a transport that answers every
  request with the same status and body and one that always throws; a stand-in for \<open>JSON.parse\<close> that knows
  three bodies and one for \<open>Number::toString\<close> that is right on 0 and 1; and a list of
  three paper records of which one is flagged influential.
\<close>

definition example_entry :: xnode where
  "example_entry =
     Element (ascii ''entry'')
       [Element (ascii ''id'') [Text (ascii '' i'')],
        Element (ascii ''published'') [Text (ascii ''1T2'')],
        Element (ascii ''title'') [Text (ascii '' t '')],
        Element (ascii ''summary'') [Text (ascii ''a  b'')],
        Element (ascii ''author'') [Element (ascii ''name'') [Text (ascii '' n'')]],
        Element (ascii ''author'') [Element (ascii ''name'') [Text (ascii ''m'')]]]"

definition example_feed :: "xnode list" where
  "example_feed =
     [Element (ascii ''feed'') [Element (ascii ''title'') [Text (ascii ''q'')], example_entry]]"

definition example_xml :: jsstring where
  "example_xml =
     ascii ''<feed><title>q</title><entry><id> i</id><published>1T2</published>''
     @ ascii ''<title> t </title><summary>a  b</summary>''
     @ ascii ''<author><name> n</name></author><author><name>m</name></author></entry></feed>''"

definition bare_feed :: "xnode list" where
  "bare_feed = [Element (ascii ''feed'') [Element (ascii ''entry'') []]]"

definition bare_xml :: jsstring where
  "bare_xml = ascii ''<feed><entry/></feed>''"

definition blank_entry :: xnode where
  "blank_entry =
     Element (ascii ''entry'')
       [Element (ascii ''title'') [Text (ascii ''  '')],
        Element (ascii ''id'') [],
        Element (ascii ''published'') [],
        Element (ascii ''summary'') []]"

definition blank_feed :: "xnode list" where
  "blank_feed = [Element (ascii ''feed'') [blank_entry]]"

definition blank_xml :: jsstring where
  "blank_xml =
     ascii ''<feed><entry><title>  </title><id></id><published></published>''
     @ ascii ''<summary></summary></entry></feed>''"

definition example_parse :: "jsstring \<Rightarrow> xnode list" where
  "example_parse x =
     (if x = example_xml then example_feed
      else if x = bare_xml then bare_feed
      else if x = blank_xml then blank_feed
      else [Element (ascii ''feed'') []])"

definition example_url :: jsstring where
  "example_url = ascii ''https://arxiv.org/abs/2404.16260''"

definition example_id :: jsstring where
  "example_id = ascii ''2404.16260''"

definition example_extract :: "jsstring \<Rightarrow> jsstring option" where
  "example_extract u = (if u = example_url then Some example_id else None)"

definition answer :: "int \<Rightarrow> jsstring \<Rightarrow> transport" where
  "answer code body rq = Inr \<lparr> status = code, resp_text = body \<rparr>"

definition offline :: transport where
  "offline rq = Inl (ascii ''offline'')"

definition neg_json :: jsstring where
  \<open>neg_json = ascii ''{"numCitedBy":-1}''\<close>

definition counts_json :: jsstring where
  \<open>counts_json = ascii ''{"numCitedBy":3}''\<close>

definition example_json_parse :: "jsstring \<Rightarrow> jsval option" where
  "example_json_parse x =
     (if x = neg_json then Some (JObj [(ascii ''numCitedBy'', JNum (- 1))])
      else if x = counts_json then Some (JObj [(ascii ''numCitedBy'', JNum 3)])
      else if x = ascii ''null'' then Some JNull
      else None)"

definition example_numstr :: "rat \<Rightarrow> jsstring" where
  "example_numstr r = (if r = 0 then ascii ''0'' else ascii ''1'')"

definition example_papers :: "jsval list" where
  "example_papers =
     [JObj [(ascii ''paperId'', JStr (ascii ''p1'')), (ascii ''isInfluential'', JBool False)],
      JObj [(ascii ''paperId'', JStr (ascii ''p2'')), (ascii ''isInfluential'', JBool True),
            (ascii ''authors'',
               JArr [JObj [(ascii ''name'', JStr (ascii ''A''))],
                     JObj [(ascii ''name'', JStr (ascii ''B''))]])],
      JObj [(ascii ''paperId'', JStr (ascii ''p3''))]]"

section \<open>Properties of the string operations\<close>

lemma is_ws_LF: "is_ws LF"
  by (simp add: is_ws_def LF_def)

lemma is_ws_SPACE: "is_ws SPACE"
  by (simp add: is_ws_def SPACE_def)

lemma SPACE_neq_LF: "SPACE \<noteq> LF"
  by (simp add: SPACE_def LF_def)

lemma replace_runs_Nil_iff: "replace_runs p r xs = [] \<longleftrightarrow> xs = []"
  by (cases xs) auto

lemma dropWhile_weaker:
  assumes "\<And>c. q c \<Longrightarrow> p c"
  shows "dropWhile p (dropWhile q cs) = dropWhile p cs"
  using assms by (induction cs) auto

text \<open>Dropping a leading run of a larger class commutes with collapsing a smaller one.\<close>

lemma dropWhile_replace_runs:
  assumes "\<And>c. q c \<Longrightarrow> p c" and "p r'"
  shows "dropWhile p (replace_runs q r' ys) = replace_runs q r' (dropWhile p ys)"
  using assms
proof (induction q r' ys rule: replace_runs.induct)
  case (1 q r')
  then show ?case by simp
next
  case (2 q r' c cs)
  show ?case
  proof (cases "q c")
    case True
    then have pc: "p c" using 2(3) by blast
    have dd: "dropWhile p (dropWhile q cs) = dropWhile p cs"
      using 2(3) by (rule dropWhile_weaker)
    show ?thesis using True pc 2(1)[OF True 2(3) 2(4)] 2(4) dd by simp
  next
    case False
    show ?thesis using False 2(2)[OF False 2(3) 2(4)] by simp
  qed
qed

text \<open>
  Collapsing the runs of a class \<open>q\<close> first changes nothing for a later collapse of a
  class \<open>p\<close> that contains \<open>q\<close> and the replacement of \<open>q\<close>: this is what happens to
  \<open>/\n+/\<close> under \<open>/\s+/\<close>.
\<close>

lemma replace_runs_absorb:
  assumes sub: "\<And>c. q c \<Longrightarrow> p c" and r': "p r'"
  shows "replace_runs p r (replace_runs q r' xs) = replace_runs p r xs"
proof (induction "length xs" arbitrary: xs rule: less_induct)
  case less
  show ?case
  proof (cases xs)
    case Nil
    then show ?thesis by simp
  next
    case (Cons c cs)
    show ?thesis
    proof (cases "q c")
      case True
      then have pc: "p c" using sub by blast
      have shorter: "length (dropWhile p cs) < length xs"
        using Cons length_dropWhile_le[of p cs] by simp
      have "replace_runs p r (replace_runs q r' (c # cs))
            = r # replace_runs p r (dropWhile p (replace_runs q r' (dropWhile q cs)))"
        using True r' by simp
      also have "dropWhile p (replace_runs q r' (dropWhile q cs))
                 = replace_runs q r' (dropWhile p cs)"
        using dropWhile_replace_runs[of q p r' "dropWhile q cs"] sub r'
          dropWhile_weaker[of q p cs] by simp
      also have "replace_runs p r (replace_runs q r' (dropWhile p cs))
                 = replace_runs p r (dropWhile p cs)"
        using less[OF shorter] .
      finally show ?thesis using pc Cons by simp
    next
      case False
      have "replace_runs p r (replace_runs q r' cs) = replace_runs p r cs"
        using less[of cs] Cons by simp
      moreover have "dropWhile p (replace_runs q r' cs) = replace_runs q r' (dropWhile p cs)"
        using dropWhile_replace_runs[of q p r' cs] sub r' by simp
      moreover have "replace_runs p r (replace_runs q r' (dropWhile p cs))
                     = replace_runs p r (dropWhile p cs)"
        using less[of "dropWhile p cs"] Cons length_dropWhile_le[of p cs] by simp
      ultimately show ?thesis using False Cons by (cases "p c") auto
    qed
  qed
qed

lemma dropWhile_replace_runs_same:
  "p r \<Longrightarrow> dropWhile p (replace_runs p r (dropWhile p cs)) = replace_runs p r (dropWhile p cs)"
  using dropWhile_replace_runs[of p p r "dropWhile p cs"] by (simp add: dropWhile_idem)

lemma replace_runs_idem:
  assumes "p r"
  shows "replace_runs p r (replace_runs p r xs) = replace_runs p r xs"
  using assms
proof (induction p r xs rule: replace_runs.induct)
  case (1 p r)
  then show ?case by simp
next
  case (2 p r c cs)
  show ?case
  proof (cases "p c")
    case True
    then show ?thesis
      using 2(1)[OF True 2(3)] 2(3) dropWhile_replace_runs_same[of p r cs] by simp
  next
    case False
    then show ?thesis using 2(2)[OF False 2(3)] by simp
  qed
qed

lemma set_replace_runs: "set (replace_runs p r xs) \<subseteq> insert r {c \<in> set xs. \<not> p c}"
proof (induction p r xs rule: replace_runs.induct)
  case (1 p r)
  then show ?case by simp
next
  case (2 p r c cs)
  show ?case
  proof (cases "p c")
    case True
    have "set (dropWhile p cs) \<subseteq> set cs" by (auto dest: set_dropWhileD)
    then show ?thesis using True 2(1)[OF True] by auto
  next
    case False
    then show ?thesis using 2(2)[OF False] by auto
  qed
qed

lemma LF_notin_collapsed: "LF \<notin> set (replace_runs is_ws SPACE xs)"
  using set_replace_runs[of is_ws SPACE xs] is_ws_LF SPACE_neq_LF by auto

lemma split_on_no_sep: "sep \<notin> set xs \<Longrightarrow> split_on sep xs = [xs]"
  by (induction xs) auto

lemma trim_trimmed: "trimmed s \<Longrightarrow> trim s = s"
proof -
  assume t: "trimmed s"
  show ?thesis
  proof (cases "s = []")
    case True
    then show ?thesis by (simp add: trim_def)
  next
    case False
    then have h: "\<not> is_ws (hd s)" and l: "\<not> is_ws (last s)"
      using t by (auto simp: trimmed_def)
    have 1: "dropWhile is_ws s = s" using False h by (cases s) auto
    have 2: "dropWhile is_ws (rev s) = rev s"
      using False l by (cases "rev s") (auto simp: last_rev[symmetric] hd_rev)
    show ?thesis by (simp add: trim_def 1 2)
  qed
qed

lemma last_dropWhile_nonempty:
  "dropWhile P xs \<noteq> [] \<Longrightarrow> last (dropWhile P xs) = last xs"
  by (induction xs) (auto split: if_splits)

lemma trimmed_trim: "trimmed (trim s)"
proof -
  let ?a = "dropWhile is_ws s"
  let ?b = "dropWhile is_ws (rev ?a)"
  show ?thesis
  proof (cases "?b = []")
    case True
    then show ?thesis by (simp add: trim_def trimmed_def)
  next
    case False
    then have hb: "\<not> is_ws (hd ?b)" by (rule hd_dropWhile)
    have ane: "?a \<noteq> []"
    proof
      assume "?a = []"
      then have "?b = []" by (simp only: rev.simps dropWhile.simps)
      with False show False by blast
    qed
    then have ha: "\<not> is_ws (hd ?a)" by (rule hd_dropWhile)
    have "last ?b = last (rev ?a)" using False by (rule last_dropWhile_nonempty)
    also have "\<dots> = hd ?a" using ane by (simp add: last_rev)
    finally have lb: "\<not> is_ws (last ?b)" using ha by simp
    have "hd (rev ?b) = last ?b" using False by (simp add: hd_rev)
    moreover have "last (rev ?b) = hd ?b" using False by (simp add: last_rev)
    ultimately show ?thesis using hb lb False by (simp add: trim_def trimmed_def)
  qed
qed

lemma hd_replace_runs: "xs \<noteq> [] \<Longrightarrow> \<not> p (hd xs) \<Longrightarrow> hd (replace_runs p r xs) = hd xs"
  by (cases xs) auto

lemma last_replace_runs:
  "xs \<noteq> [] \<Longrightarrow> \<not> p (last xs) \<Longrightarrow> last (replace_runs p r xs) = last xs"
proof (induction p r xs rule: replace_runs.induct)
  case (1 p r)
  then show ?case by simp
next
  case (2 p r c cs)
  show ?case
  proof (cases "p c")
    case True
    then have cs: "cs \<noteq> []" using 2(3,4) by auto
    then have lcs: "\<not> p (last cs)" using 2(4) by simp
    have dne: "dropWhile p cs \<noteq> []" using cs lcs
      by (metis dropWhile_eq_Nil_conv last_in_set)
    then have ld: "last (dropWhile p cs) = last cs" by (rule last_dropWhile_nonempty)
    have "last (replace_runs p r (dropWhile p cs)) = last (dropWhile p cs)"
      using 2(1)[OF True dne] ld lcs by simp
    moreover have "replace_runs p r (dropWhile p cs) \<noteq> []"
      using dne by (simp only: replace_runs_Nil_iff not_False_eq_True)
    moreover have "replace_runs p r (c # cs) = r # replace_runs p r (dropWhile p cs)"
      using True by simp
    moreover have "last (c # cs) = last cs" using cs by simp
    ultimately show ?thesis using ld by (simp only: last.simps if_False)
  next
    case False
    show ?thesis
    proof (cases "cs = []")
      case True
      then show ?thesis using False by simp
    next
      case ne: False
      then show ?thesis
        using False 2(2)[OF False ne] 2(4) by (simp add: replace_runs_Nil_iff)
    qed
  qed
qed

lemma trimmed_replace_runs: "trimmed s \<Longrightarrow> trimmed (replace_runs is_ws SPACE s)"
  unfolding trimmed_def
  by (auto simp: replace_runs_Nil_iff hd_replace_runs last_replace_runs)

lemma trim_collapsed: "trim (replace_runs is_ws SPACE (trim s)) = replace_runs is_ws SPACE (trim s)"
  by (rule trim_trimmed) (rule trimmed_replace_runs, rule trimmed_trim)

text \<open>
  The six steps of \<open>formatAbstract\<close> come to two: the collapse of \<open>/\s+/\<close> takes every
  line feed with it, so \<open>split\<close> returns one piece, which is already trimmed.
\<close>

lemma formatAbstract_collapse: "formatAbstract s = replace_runs is_ws SPACE (trim s)"
proof -
  let ?u = "trim s"
  let ?c = "replace_runs is_ws SPACE ?u"
  have sub: "\<And>c. is_lf c \<Longrightarrow> is_ws c" by (simp add: is_lf_def is_ws_LF)
  have a: "replace_runs is_ws SPACE (replace_runs is_lf LF ?u) = ?c"
    using sub is_ws_LF by (rule replace_runs_absorb)
  have b: "split_on LF ?c = [?c]" by (rule split_on_no_sep) (rule LF_notin_collapsed)
  show ?thesis by (simp add: formatAbstract_def a b trim_collapsed)
qed

section \<open>Abstract normalization: the claims\<close>

text \<open>
  C3. Abstract normalization runs trim, the collapse of line-feed runs, the collapse of
  whitespace runs, the split on line feeds, the trim of each piece and the join with a
  blank line, so that paragraphs separated by line feeds should come out separated by
  blank lines. On the two-paragraph abstract \<open>a\<close>, line feed, \<open>b\<close> the code returns
  the single line \<open>a b\<close> and not \<open>a\<close>, blank line, \<open>b\<close>: the whitespace collapse runs
  before the split and has already turned the line feed into a space.
\<close>

theorem formatAbstract_loses_paragraphs:
  "formatAbstract [0x61, LF, 0x62] = [0x61, SPACE, 0x62]
   \<and> formatAbstract [0x61, LF, 0x62] \<noteq> [0x61, LF, LF, 0x62]"
  by (simp add: formatAbstract_def trim_def is_ws_def is_lf_def LF_def SPACE_def)

text \<open>
  C4. For every string, the output of \<open>formatAbstract\<close> contains no line feed and equals
  the trimmed input with every maximal run of whitespace replaced by one space.
\<close>

theorem formatAbstract_single_line:
  "LF \<notin> set (formatAbstract s) \<and> formatAbstract s = replace_runs is_ws SPACE (trim s)"
  using LF_notin_collapsed[of "trim s"] by (simp add: formatAbstract_collapse)

text \<open>
  C5. Abstract normalization is idempotent: normalizing a normalized abstract returns it
  unchanged.
\<close>

theorem formatAbstract_idempotent: "formatAbstract (formatAbstract s) = formatAbstract s"
  using replace_runs_idem[of is_ws SPACE "trim s"] is_ws_SPACE
  by (simp add: formatAbstract_collapse trim_collapsed)

section \<open>Metadata retrieval: the claims\<close>

lemma first_piece_split_on:
  "first_piece (split_on sep s) = Some (takeWhile (\<lambda>c. c \<noteq> sep) s)"
  by (induction s) (auto simp: first_piece_def split: list.splits)

lemma example_feed_entry:
  "querySelector (ascii ''entry'') (doc_elements example_feed)
     = Some ([ascii ''feed''], example_entry)"
  by (simp add: querySelector_def doc_elements_def example_feed_def example_entry_def ascii_def)

lemma example_entry_parsed:
  "parse_entry ([ascii ''feed''], example_entry) =
     \<lparr> title = ascii ''t'', paperLink = ascii '' i'', publishDate = ascii ''1'',
       authors = ascii '' n, m'', abstract = ascii ''a b'' \<rparr>"
  by (simp add: parse_entry_def example_entry_def querySelector_def querySelectorAll2_def
      or_default_def first_piece_def formatAbstract_def trim_def is_ws_def is_lf_def
      LF_def SPACE_def ascii_def)

lemma bare_feed_entry:
  "querySelector (ascii ''entry'') (doc_elements bare_feed)
     = Some ([ascii ''feed''], Element (ascii ''entry'') [])"
  by (simp add: querySelector_def doc_elements_def bare_feed_def ascii_def)

lemma blank_feed_entry:
  "querySelector (ascii ''entry'') (doc_elements blank_feed)
     = Some ([ascii ''feed''], blank_entry)"
  by (simp add: querySelector_def doc_elements_def blank_feed_def blank_entry_def ascii_def)

lemma example_parse_blank: "example_parse blank_xml = blank_feed"
  by (simp add: example_parse_def)
     (simp add: bare_xml_def example_xml_def blank_xml_def ascii_def)

lemma example_parse_example: "example_parse example_xml = example_feed"
  by (simp add: example_parse_def)

lemma example_parse_bare: "example_parse bare_xml = bare_feed"
  by (simp add: example_parse_def) (simp add: bare_xml_def example_xml_def ascii_def)

lemma example_parse_empty: "example_parse (ascii ''<feed/>'') = [Element (ascii ''feed'') []]"
  by (simp add: example_parse_def)
     (simp add: bare_xml_def example_xml_def blank_xml_def ascii_def)

lemma example_extract_url: "example_extract example_url = Some example_id"
  by (simp add: example_extract_def)

lemma example_extract_other: "example_extract (ascii ''not a url'') = None"
  by (simp add: example_extract_def example_url_def ascii_def)

lemma example_id_nonempty: "example_id \<noteq> []"
  by (simp add: example_id_def ascii_def)

lemma formatAbstract_no_abstract: "formatAbstract no_abstract = no_abstract"
  by (simp add: no_abstract_def formatAbstract_def trim_def is_ws_def is_lf_def
      LF_def SPACE_def ascii_def)

text \<open>
  C2. The claim splits every call into four outcomes: \<open>InvalidInput\<close>, \<open>UpstreamError\<close>,
  \<open>NotFound\<close> and a returned record. With an identifier extracted and a transport
  that throws, the call is none of the four: lines 14 to 19 have no \<open>catch\<close>, and the
  exception of \<open>requestUrl\<close> leaves \<open>fetchArxivMetadata\<close> as it came.
\<close>

theorem transport_failure_uncaught:
  "fetchArxivMetadata example_extract offline example_parse example_url
     = Inl (TransportError (ascii ''offline''))
   \<and> \<not> falsy_id (example_extract example_url)
   \<and> fetchArxivMetadata example_extract offline example_parse example_url \<noteq> Inl InvalidInput
   \<and> fetchArxivMetadata example_extract offline example_parse example_url \<noteq> Inl NotFound
   \<and> (\<nexists>code. fetchArxivMetadata example_extract offline example_parse example_url
                = Inl (UpstreamError code))
   \<and> (\<nexists>r. fetchArxivMetadata example_extract offline example_parse example_url = Inr r)"
proof -
  have "fetchArxivMetadata example_extract offline example_parse example_url
          = Inl (TransportError (ascii ''offline''))"
    using example_id_nonempty
    by (simp add: fetchArxivMetadata_def example_extract_url offline_def)
  moreover have "\<not> falsy_id (example_extract example_url)"
    using example_id_nonempty by (simp add: falsy_id_def example_extract_url)
  ultimately show ?thesis by simp
qed

text \<open>
  C2, as the code has it. \<open>fetchArxivMetadata\<close> fails with \<open>InvalidInput\<close> exactly when
  \<open>extractArxivId\<close> yields no identifier (\<open>null\<close> or the empty string, which \<open>!arxivId\<close>
  treats alike). Otherwise an exception of the transport is passed on as it is; and
  when the transport returns a response, the call fails with \<open>UpstreamError\<close> exactly
  when the status is not 200, and the error carries that status; otherwise it fails
  with \<open>NotFound\<close> exactly when the parsed body has no \<open>entry\<close> element; otherwise it
  returns the record parsed from the first \<open>entry\<close> element.
\<close>

theorem fetchArxivMetadata_outcomes:
  "(fetchArxivMetadata extractArxivId requestUrl parseFromString u = Inl InvalidInput
      \<longleftrightarrow> falsy_id (extractArxivId u))
   \<and> (\<forall>aid. extractArxivId u = Some aid \<and> aid \<noteq> [] \<longrightarrow>
        (\<forall>msg. requestUrl (metadata_request aid) = Inl msg \<longrightarrow>
           fetchArxivMetadata extractArxivId requestUrl parseFromString u
             = Inl (TransportError msg))
      \<and> (\<forall>response. requestUrl (metadata_request aid) = Inr response \<longrightarrow>
           ((\<exists>code. fetchArxivMetadata extractArxivId requestUrl parseFromString u
                     = Inl (UpstreamError code)) \<longleftrightarrow> status response \<noteq> 200)
         \<and> (status response \<noteq> 200 \<longrightarrow>
               fetchArxivMetadata extractArxivId requestUrl parseFromString u
                 = Inl (UpstreamError (status response)))
         \<and> (status response = 200 \<longrightarrow>
               (fetchArxivMetadata extractArxivId requestUrl parseFromString u = Inl NotFound
                  \<longleftrightarrow> querySelector (ascii ''entry'')
                        (doc_elements (parseFromString (resp_text response))) = None)
             \<and> (\<forall>entry. querySelector (ascii ''entry'')
                          (doc_elements (parseFromString (resp_text response))) = Some entry \<longrightarrow>
                    fetchArxivMetadata extractArxivId requestUrl parseFromString u
                      = Inr (parse_entry entry)))))"
  by (auto simp: fetchArxivMetadata_def parseArxivResponse_def falsy_id_def
           split: option.splits sum.splits)

theorem fetchArxivMetadata_outcomes_witness:
  "fetchArxivMetadata example_extract (answer 200 example_xml) example_parse (ascii ''not a url'')
     = Inl InvalidInput
   \<and> fetchArxivMetadata example_extract offline example_parse example_url
     = Inl (TransportError (ascii ''offline''))
   \<and> fetchArxivMetadata example_extract (answer 404 []) example_parse example_url
     = Inl (UpstreamError 404)
   \<and> fetchArxivMetadata example_extract (answer 200 (ascii ''<feed/>'')) example_parse example_url
     = Inl NotFound
   \<and> fetchArxivMetadata example_extract (answer 200 example_xml) example_parse example_url
     = Inr \<lparr> title = ascii ''t'', paperLink = ascii '' i'', publishDate = ascii ''1'',
             authors = ascii '' n, m'', abstract = ascii ''a b'' \<rparr>"
proof -
  have none: "querySelector (ascii ''entry'') (doc_elements [Element (ascii ''feed'') []]) = None"
    by (simp add: querySelector_def doc_elements_def ascii_def)
  have t: "fetchArxivMetadata example_extract offline example_parse example_url
             = Inl (TransportError (ascii ''offline''))"
    using fetchArxivMetadata_outcomes[of example_extract offline example_parse example_url]
      example_id_nonempty
    by (simp add: example_extract_url offline_def)
  have a: "fetchArxivMetadata example_extract (answer 200 example_xml) example_parse
             (ascii ''not a url'') = Inl InvalidInput"
    using fetchArxivMetadata_outcomes[of example_extract "answer 200 example_xml" example_parse
        "ascii ''not a url''"]
    by (simp add: falsy_id_def example_extract_other)
  have b: "fetchArxivMetadata example_extract (answer 404 []) example_parse example_url
             = Inl (UpstreamError 404)"
    using fetchArxivMetadata_outcomes[of example_extract "answer 404 []" example_parse
        example_url] example_id_nonempty
    by (simp add: example_extract_url answer_def)
  have c: "fetchArxivMetadata example_extract (answer 200 (ascii ''<feed/>'')) example_parse
             example_url = Inl NotFound"
    using fetchArxivMetadata_outcomes[of example_extract "answer 200 (ascii ''<feed/>'')"
        example_parse example_url] example_id_nonempty none
    by (simp add: example_extract_url answer_def example_parse_empty)
  have d: "fetchArxivMetadata example_extract (answer 200 example_xml) example_parse example_url
             = Inr (parse_entry ([ascii ''feed''], example_entry))"
    using fetchArxivMetadata_outcomes[of example_extract "answer 200 example_xml"
        example_parse example_url] example_id_nonempty example_feed_entry
    by (simp add: example_extract_url answer_def example_parse_example)
  show ?thesis using a t b c d by (simp only: example_entry_parsed simp_thms)
qed

lemma blank_entry_parsed:
  "parse_entry ([ascii ''feed''], blank_entry) =
     \<lparr> title = no_title, paperLink = [], publishDate = no_date, authors = [],
       abstract = no_abstract \<rparr>"
proof -
  have "parse_entry ([ascii ''feed''], blank_entry) =
     \<lparr> title = no_title, paperLink = [], publishDate = no_date, authors = [],
       abstract = formatAbstract no_abstract \<rparr>"
    by (simp add: parse_entry_def blank_entry_def querySelector_def querySelectorAll2_def
        or_default_def first_piece_def trim_def is_ws_def ascii_def)
  then show ?thesis by (simp only: formatAbstract_no_abstract)
qed

text \<open>
  C6. For a feed whose entry has a title, an id, a published date, author names and a
  summary, the claim has every field equal to its source text, trimmed. At the example
  feed the link and the first author name keep the leading space that trimming would
  remove, and the abstract has one space where the trimmed summary has two. At the feed
  whose entry has a blank title and an empty published date and summary, the three
  fields are the fallback literals and not the empty string.
\<close>

theorem metadata_not_verbatim:
  "fetchArxivMetadata example_extract (answer 200 example_xml) example_parse example_url
     = Inr \<lparr> title = ascii ''t'', paperLink = ascii '' i'', publishDate = ascii ''1'',
             authors = ascii '' n, m'', abstract = ascii ''a b'' \<rparr>
   \<and> ascii '' i'' \<noteq> trim (ascii '' i'')
   \<and> ascii '' n, m'' \<noteq> join (ascii '', '') [trim (ascii '' n''), trim (ascii ''m'')]
   \<and> ascii ''a b'' \<noteq> trim (ascii ''a  b'')
   \<and> fetchArxivMetadata example_extract (answer 200 blank_xml) example_parse example_url
     = Inr \<lparr> title = no_title, paperLink = [], publishDate = no_date, authors = [],
             abstract = no_abstract \<rparr>
   \<and> no_title \<noteq> trim (ascii ''  '')
   \<and> no_date \<noteq> takeWhile (\<lambda>c. c \<noteq> of_char CHR ''T'') (trim [])
   \<and> no_abstract \<noteq> trim []"
proof -
  have "fetchArxivMetadata example_extract (answer 200 example_xml) example_parse example_url
       = Inr (parse_entry ([ascii ''feed''], example_entry))"
    using example_id_nonempty
    by (simp add: fetchArxivMetadata_def parseArxivResponse_def answer_def
          example_extract_url example_parse_example example_feed_entry)
  moreover have "fetchArxivMetadata example_extract (answer 200 blank_xml) example_parse example_url
       = Inr (parse_entry ([ascii ''feed''], blank_entry))"
    using example_id_nonempty
    by (simp add: fetchArxivMetadata_def parseArxivResponse_def answer_def
          example_extract_url example_parse_blank blank_feed_entry)
  moreover have "ascii '' i'' \<noteq> trim (ascii '' i'')"
    by (simp add: trim_def is_ws_def ascii_def)
  moreover have "ascii '' n, m'' \<noteq> join (ascii '', '') [trim (ascii '' n''), trim (ascii ''m'')]"
    by (simp add: trim_def is_ws_def ascii_def)
  moreover have "ascii ''a b'' \<noteq> trim (ascii ''a  b'')"
    by (simp add: trim_def is_ws_def ascii_def)
  moreover have "no_title \<noteq> trim (ascii ''  '')"
    by (simp add: no_title_def trim_def is_ws_def ascii_def)
  moreover have "no_date \<noteq> takeWhile (\<lambda>c. c \<noteq> of_char CHR ''T'') (trim [])"
    by (simp add: no_date_def trim_def)
  moreover have "no_abstract \<noteq> trim []"
    by (simp add: no_abstract_def trim_def ascii_def)
  ultimately show ?thesis by (simp only: example_entry_parsed blank_entry_parsed simp_thms)
qed

text \<open>
  C6, as the code has it. When the first entry has a title, an id, a published date and
  a summary, the record returned has: the title text trimmed, or the fallback literal
  when that is empty; the id text as it is; the published text before the first \<open>T\<close>,
  or the fallback literal when that is empty; the author names as they are, joined with
  a comma and a space; and \<open>formatAbstract\<close> of the summary text, or of the fallback
  literal when the summary text is empty.
\<close>

theorem metadata_fields:
  assumes "extractArxivId u = Some aid" and "aid \<noteq> []"
    and "requestUrl (metadata_request aid) = Inr response" and "status response = 200"
    and "querySelector (ascii ''entry'') (doc_elements (parseFromString (resp_text response)))
           = Some entry"
    and "querySelector (ascii ''title'') (sub_elements entry) = Some t"
    and "querySelector (ascii ''id'') (sub_elements entry) = Some i"
    and "querySelector (ascii ''published'') (sub_elements entry) = Some p"
    and "querySelector (ascii ''summary'') (sub_elements entry) = Some s"
  shows "fetchArxivMetadata extractArxivId requestUrl parseFromString u
     = Inr \<lparr> title =
               (if trim (textContent (snd t)) = [] then no_title
                else trim (textContent (snd t))),
             paperLink = textContent (snd i),
             publishDate =
               (if takeWhile (\<lambda>c. c \<noteq> of_char CHR ''T'') (textContent (snd p)) = []
                then no_date
                else takeWhile (\<lambda>c. c \<noteq> of_char CHR ''T'') (textContent (snd p))),
             authors = join (ascii '', '')
               (map (\<lambda>a. textContent (snd a))
                  (querySelectorAll2 (ascii ''author'') (ascii ''name'') (sub_elements entry))),
             abstract =
               formatAbstract
                 (if textContent (snd s) = [] then no_abstract else textContent (snd s)) \<rparr>"
  using assms
  by (simp add: fetchArxivMetadata_def parseArxivResponse_def parse_entry_def or_default_def
        first_piece_split_on)

theorem metadata_fields_witness:
  "fetchArxivMetadata example_extract (answer 200 example_xml) example_parse example_url
     = Inr \<lparr> title = ascii ''t'', paperLink = ascii '' i'', publishDate = ascii ''1'',
             authors = ascii '' n, m'', abstract = ascii ''a b'' \<rparr>
   \<and> fetchArxivMetadata example_extract (answer 200 blank_xml) example_parse example_url
     = Inr \<lparr> title = no_title, paperLink = [], publishDate = no_date, authors = [],
             abstract = no_abstract \<rparr>"
proof -
  let ?anc = "[ascii ''entry'', ascii ''feed'']"
  let ?entry = "([ascii ''feed''], example_entry)"
  let ?t = "(?anc, Element (ascii ''title'') [Text (ascii '' t '')])"
  let ?i = "(?anc, Element (ascii ''id'') [Text (ascii '' i'')])"
  let ?p = "(?anc, Element (ascii ''published'') [Text (ascii ''1T2'')])"
  let ?s = "(?anc, Element (ascii ''summary'') [Text (ascii ''a  b'')])"
  have rq: "answer 200 example_xml (metadata_request example_id)
              = Inr \<lparr> status = 200, resp_text = example_xml \<rparr>"
    by (simp add: answer_def)
  have st: "status \<lparr> status = 200, resp_text = example_xml \<rparr> = 200" by simp
  have en: "querySelector (ascii ''entry'')
              (doc_elements (example_parse (resp_text \<lparr> status = 200, resp_text = example_xml \<rparr>)))
            = Some ?entry"
    by (simp add: example_parse_example example_feed_entry)
  have qt: "querySelector (ascii ''title'') (sub_elements ?entry) = Some ?t"
    by (simp add: querySelector_def example_entry_def ascii_def)
  have qi: "querySelector (ascii ''id'') (sub_elements ?entry) = Some ?i"
    by (simp add: querySelector_def example_entry_def ascii_def)
  have qp: "querySelector (ascii ''published'') (sub_elements ?entry) = Some ?p"
    by (simp add: querySelector_def example_entry_def ascii_def)
  have qs: "querySelector (ascii ''summary'') (sub_elements ?entry) = Some ?s"
    by (simp add: querySelector_def example_entry_def ascii_def)
  have full: "fetchArxivMetadata example_extract (answer 200 example_xml) example_parse example_url
     = Inr \<lparr> title = ascii ''t'', paperLink = ascii '' i'', publishDate = ascii ''1'',
             authors = ascii '' n, m'', abstract = ascii ''a b'' \<rparr>"
    using metadata_fields[where extractArxivId = example_extract and u = example_url
          and requestUrl = "answer 200 example_xml" and parseFromString = example_parse,
          OF example_extract_url example_id_nonempty rq st en qt qi qp qs]
    by (simp add: querySelectorAll2_def example_entry_def formatAbstract_def trim_def
          is_ws_def is_lf_def LF_def SPACE_def ascii_def)
  let ?bentry = "([ascii ''feed''], blank_entry)"
  let ?bt = "(?anc, Element (ascii ''title'') [Text (ascii ''  '')])"
  let ?bi = "(?anc, Element (ascii ''id'') [])"
  let ?bp = "(?anc, Element (ascii ''published'') [])"
  let ?bs = "(?anc, Element (ascii ''summary'') [])"
  have brq: "answer 200 blank_xml (metadata_request example_id)
              = Inr \<lparr> status = 200, resp_text = blank_xml \<rparr>"
    by (simp add: answer_def)
  have bst: "status \<lparr> status = 200, resp_text = blank_xml \<rparr> = 200" by simp
  have ben: "querySelector (ascii ''entry'')
              (doc_elements (example_parse (resp_text \<lparr> status = 200, resp_text = blank_xml \<rparr>)))
            = Some ?bentry"
    by (simp add: example_parse_blank blank_feed_entry)
  have bqt: "querySelector (ascii ''title'') (sub_elements ?bentry) = Some ?bt"
    by (simp add: querySelector_def blank_entry_def ascii_def)
  have bqi: "querySelector (ascii ''id'') (sub_elements ?bentry) = Some ?bi"
    by (simp add: querySelector_def blank_entry_def ascii_def)
  have bqp: "querySelector (ascii ''published'') (sub_elements ?bentry) = Some ?bp"
    by (simp add: querySelector_def blank_entry_def ascii_def)
  have bqs: "querySelector (ascii ''summary'') (sub_elements ?bentry) = Some ?bs"
    by (simp add: querySelector_def blank_entry_def ascii_def)
  have blank: "fetchArxivMetadata example_extract (answer 200 blank_xml) example_parse example_url
     = Inr \<lparr> title = no_title, paperLink = [], publishDate = no_date, authors = [],
             abstract = no_abstract \<rparr>"
    using metadata_fields[where extractArxivId = example_extract and u = example_url
          and requestUrl = "answer 200 blank_xml" and parseFromString = example_parse,
          OF example_extract_url example_id_nonempty brq bst ben bqt bqi bqp bqs]
    by (simp add: querySelectorAll2_def blank_entry_def formatAbstract_no_abstract trim_def
          is_ws_def ascii_def)
  show ?thesis using full blank by simp
qed

text \<open>
  C7. Once the feed has an \<open>entry\<close> element, parsing returns a record. When the entry
  has no \<open>title\<close> element the title is the literal fallback, when it has no \<open>summary\<close>
  the abstract is the normalized literal fallback, when it has no \<open>published\<close> the date
  is the literal fallback, and when it has no \<open>id\<close> the link is the empty string.
\<close>

theorem parse_entry_defaults:
  assumes "querySelector (ascii ''entry'') (doc_elements (parseFromString xmlText)) = Some entry"
  shows "\<exists>r. parseArxivResponse parseFromString xmlText = Inr r
     \<and> (querySelector (ascii ''title'') (sub_elements entry) = None \<longrightarrow> title r = no_title)
     \<and> (querySelector (ascii ''summary'') (sub_elements entry) = None \<longrightarrow>
           abstract r = formatAbstract no_abstract)
     \<and> (querySelector (ascii ''published'') (sub_elements entry) = None \<longrightarrow>
           publishDate r = no_date)
     \<and> (querySelector (ascii ''id'') (sub_elements entry) = None \<longrightarrow> paperLink r = [])"
  using assms by (simp add: parseArxivResponse_def parse_entry_def or_default_def)

theorem parse_entry_defaults_witness:
  "parseArxivResponse example_parse bare_xml
     = Inr \<lparr> title = no_title, paperLink = [], publishDate = no_date, authors = [],
             abstract = no_abstract \<rparr>"
proof -
  let ?entry = "([ascii ''feed''], Element (ascii ''entry'') [])"
  have en: "querySelector (ascii ''entry'') (doc_elements (example_parse bare_xml)) = Some ?entry"
    by (simp add: example_parse_bare bare_feed_entry)
  have q: "\<And>t. querySelector t (sub_elements ?entry) = None"
    by (simp add: querySelector_def)
  from parse_entry_defaults[where parseFromString = example_parse and xmlText = bare_xml,
      OF en]
  obtain r where r: "parseArxivResponse example_parse bare_xml = Inr r"
    and f: "title r = no_title" "abstract r = formatAbstract no_abstract"
      "publishDate r = no_date" "paperLink r = []"
    using q by auto
  have "authors r = []"
    using r en by (auto simp: parseArxivResponse_def parse_entry_def querySelectorAll2_def)
  then show ?thesis using r f by (simp add: formatAbstract_no_abstract)
qed

text \<open>
  C10. When the entry has no \<open>name\<close> element under an \<open>author\<close> element, the authors
  field of the record that \<open>fetchArxivMetadata\<close> returns is the empty string: the join
  of no names, with no literal fallback.
\<close>

theorem authors_empty_without_names:
  assumes "extractArxivId u = Some aid" and "aid \<noteq> []"
    and "requestUrl (metadata_request aid) = Inr response" and "status response = 200"
    and "querySelector (ascii ''entry'') (doc_elements (parseFromString (resp_text response)))
           = Some entry"
    and "querySelectorAll2 (ascii ''author'') (ascii ''name'') (sub_elements entry) = []"
  shows "\<exists>r. fetchArxivMetadata extractArxivId requestUrl parseFromString u = Inr r
             \<and> authors r = []"
  using assms by (simp add: fetchArxivMetadata_def parseArxivResponse_def parse_entry_def)

theorem authors_empty_without_names_witness:
  "\<exists>r. fetchArxivMetadata example_extract (answer 200 bare_xml) example_parse example_url = Inr r
        \<and> authors r = []"
proof -
  let ?entry = "([ascii ''feed''], Element (ascii ''entry'') [])"
  have rq: "answer 200 bare_xml (metadata_request example_id)
              = Inr \<lparr> status = 200, resp_text = bare_xml \<rparr>"
    by (simp add: answer_def)
  have st: "status \<lparr> status = 200, resp_text = bare_xml \<rparr> = 200" by simp
  have en: "querySelector (ascii ''entry'')
              (doc_elements (example_parse (resp_text \<lparr> status = 200, resp_text = bare_xml \<rparr>)))
            = Some ?entry"
    by (simp add: example_parse_bare bare_feed_entry)
  have no_names: "querySelectorAll2 (ascii ''author'') (ascii ''name'') (sub_elements ?entry) = []"
    by (simp add: querySelectorAll2_def)
  show ?thesis
    by (rule authors_empty_without_names[where extractArxivId = example_extract
          and u = example_url and requestUrl = "answer 200 bare_xml"
          and parseFromString = example_parse,
          OF example_extract_url example_id_nonempty rq st en no_names])
qed

section \<open>Citation retrieval: the claims\<close>

lemma not_nullish_object: "is_object v \<Longrightarrow> \<not> nullish v"
  by (cases v) auto

lemma map_err_total:
  "(\<And>x. x \<in> set xs \<Longrightarrow> f x = Inr (g x)) \<Longrightarrow> map_err f xs = Inr (map g xs)"
  by (induction xs) auto

lemma filter_err_total:
  "(\<And>x. x \<in> set xs \<Longrightarrow> f x = Inr (g x)) \<Longrightarrow> filter_err f xs = Inr (filter g xs)"
  by (induction xs) auto

lemma or_default_Some_Nil: "or_default (Some s) [] = s"
  by (simp add: or_default_def)

lemma to_str_own_toString:
  "to_str numstr (JObj [(ascii ''toString'', JNum 1)]) = Inl TypeError"
  by (simp add: to_str_def)

lemma authors_of_raw: "raw_paper p \<Longrightarrow> authors_of numstr p = Inr (spec_author_names numstr p)"
proof -
  assume rp: "raw_paper p"
  show ?thesis
  proof (cases "own_prop p (ascii ''authors'')")
    case (JArr author_list)
    let ?names = "map (\<lambda>a. own_prop a (ascii ''name'')) author_list"
    have objs: "list_all (\<lambda>a. is_object a \<and> \<not> unprintable (own_prop a (ascii ''name''))) author_list"
      using rp JArr by (simp add: raw_paper_def)
    have names: "map_err (\<lambda>author. get_prop author (ascii ''name'')) author_list = Inr ?names"
      by (rule map_err_total)
        (use objs in \<open>auto simp: get_prop_def list_all_iff not_nullish_object\<close>)
    have texts: "map_err (to_str numstr) ?names = Inr (map (element_text numstr) ?names)"
      by (rule map_err_total) (use objs in \<open>auto simp: to_str_def list_all_iff\<close>)
    show ?thesis
      using JArr names texts
      by (simp add: authors_of_def spec_author_names_def or_default_Some_Nil comp_def)
  qed (use rp in \<open>simp_all add: raw_paper_def authors_of_def spec_author_names_def\<close>)
qed

lemma reshape_raw: "raw_paper p \<Longrightarrow> reshape numstr p = Inr (spec_influential_paper numstr p)"
  by (simp add: reshape_def authors_of_raw spec_influential_paper_def raw_paper_def not_nullish_object)

lemma is_influential_raw:
  "raw_paper p \<Longrightarrow> is_influential p = Inr (truthy (own_prop p (ascii ''isInfluential'')))"
  by (simp add: is_influential_def get_prop_def raw_paper_def not_nullish_object)

lemma raw_example_papers: "list_all raw_paper example_papers"
  by (simp add: example_papers_def raw_paper_def ascii_def)

lemma fetchCitationInfo_cases:
  "fetchCitationInfo requestUrl json_parse numstr aid =
     Inr (case requestUrl (citation_request aid) of
            Inl msg \<Rightarrow> zero_citation_info
          | Inr response \<Rightarrow>
              if status response = 200 then
                (case json_parse (resp_text response) of
                   None \<Rightarrow> zero_citation_info
                 | Some data \<Rightarrow>
                     (case citation_of numstr data of
                        Inl e \<Rightarrow> zero_citation_info
                      | Inr c \<Rightarrow> c))
              else zero_citation_info)"
  by (simp add: fetchCitationInfo_def try_block_def split: sum.splits option.splits)

lemma zero_citation_info_fields: "zero_citation_info =
   \<lparr> numCitedBy = JNum 0, numCiting = JNum 0, influentialCitations = [], influentialReferences = [] \<rparr>"
  by (simp add: zero_citation_info_def)





text \<open>
  C1. Whatever the HTTP transport does, \<open>fetchCitationInfo\<close> returns a \<open>CitationInfo\<close>
  and raises nothing. When the transport throws, when the status is not 200, and when
  the body of a 200 response is not valid JSON, the value returned is the zero value;
  so it is when the parsed body makes the construction of the result throw.
\<close>

theorem fetchCitationInfo_never_raises:
  "(\<exists>c. fetchCitationInfo requestUrl json_parse numstr aid = Inr c)
   \<and> (\<forall>msg. requestUrl (citation_request aid) = Inl msg \<longrightarrow>
         fetchCitationInfo requestUrl json_parse numstr aid = Inr zero_citation_info)
   \<and> (\<forall>response. requestUrl (citation_request aid) = Inr response \<longrightarrow>
         (status response \<noteq> 200 \<longrightarrow>
            fetchCitationInfo requestUrl json_parse numstr aid = Inr zero_citation_info)
       \<and> (status response = 200 \<and> json_parse (resp_text response) = None \<longrightarrow>
            fetchCitationInfo requestUrl json_parse numstr aid = Inr zero_citation_info)
       \<and> (\<forall>data e. status response = 200 \<and> json_parse (resp_text response) = Some data
                  \<and> citation_of numstr data = Inl e \<longrightarrow>
            fetchCitationInfo requestUrl json_parse numstr aid = Inr zero_citation_info))"
proof (cases "requestUrl (citation_request aid)")
  case (Inl msg)
  then show ?thesis by (simp add: fetchCitationInfo_cases)
next
  case (Inr response)
  show ?thesis
  proof (cases "status response = 200")
    case False
    with Inr show ?thesis by (simp add: fetchCitationInfo_cases)
  next
    case True
    show ?thesis
    proof (cases "json_parse (resp_text response)")
      case None
      with Inr True show ?thesis by (simp add: fetchCitationInfo_cases)
    next
      case (Some data)
      with Inr True show ?thesis
        by (cases "citation_of numstr data") (simp_all add: fetchCitationInfo_cases)
    qed
  qed
qed

theorem fetchCitationInfo_never_raises_witness:
  "fetchCitationInfo (\<lambda>rq. Inl (ascii ''offline'')) example_json_parse example_numstr (ascii ''2404.16260'')
     = Inr \<lparr> numCitedBy = JNum 0, numCiting = JNum 0, influentialCitations = [], influentialReferences = [] \<rparr>
   \<and> fetchCitationInfo (\<lambda>rq. Inr \<lparr> status = 404, resp_text = [] \<rparr>) example_json_parse example_numstr (ascii ''2404.16260'')
     = Inr \<lparr> numCitedBy = JNum 0, numCiting = JNum 0, influentialCitations = [], influentialReferences = [] \<rparr>
   \<and> fetchCitationInfo (\<lambda>rq. Inr \<lparr> status = 200, resp_text = ascii ''oops'' \<rparr>) example_json_parse example_numstr (ascii ''2404.16260'')
     = Inr \<lparr> numCitedBy = JNum 0, numCiting = JNum 0, influentialCitations = [], influentialReferences = [] \<rparr>
   \<and> fetchCitationInfo (\<lambda>rq. Inr \<lparr> status = 200, resp_text = ascii ''null'' \<rparr>) example_json_parse example_numstr (ascii ''2404.16260'')
     = Inr \<lparr> numCitedBy = JNum 0, numCiting = JNum 0, influentialCitations = [], influentialReferences = [] \<rparr>"
proof -
  let ?aid = "ascii ''2404.16260''"
  have p1: "example_json_parse (ascii ''oops'') = None"
    by (simp add: example_json_parse_def neg_json_def counts_json_def ascii_def)
  have p2: "example_json_parse (ascii ''null'') = Some JNull"
    by (simp add: example_json_parse_def neg_json_def counts_json_def ascii_def)
  have p3: "citation_of example_numstr JNull = Inl TypeError"
    by (simp add: citation_of_def get_prop_def)
  have a: "fetchCitationInfo (\<lambda>rq. Inl (ascii ''offline'')) example_json_parse example_numstr ?aid
     = Inr zero_citation_info"
    using fetchCitationInfo_never_raises[of "\<lambda>rq. Inl (ascii ''offline'')" example_json_parse example_numstr ?aid]
    by simp
  have b: "fetchCitationInfo (\<lambda>rq. Inr \<lparr> status = 404, resp_text = [] \<rparr>) example_json_parse example_numstr ?aid
     = Inr zero_citation_info"
    using fetchCitationInfo_never_raises[of "\<lambda>rq. Inr \<lparr> status = 404, resp_text = [] \<rparr>" example_json_parse example_numstr ?aid]
    by simp
  have c: "fetchCitationInfo (\<lambda>rq. Inr \<lparr> status = 200, resp_text = ascii ''oops'' \<rparr>) example_json_parse example_numstr ?aid
     = Inr zero_citation_info"
    using fetchCitationInfo_never_raises[of "\<lambda>rq. Inr \<lparr> status = 200, resp_text = ascii ''oops'' \<rparr>" example_json_parse example_numstr ?aid] p1
    by simp
  have d: "fetchCitationInfo (\<lambda>rq. Inr \<lparr> status = 200, resp_text = ascii ''null'' \<rparr>) example_json_parse example_numstr ?aid
     = Inr zero_citation_info"
    using fetchCitationInfo_never_raises[of "\<lambda>rq. Inr \<lparr> status = 200, resp_text = ascii ''null'' \<rparr>" example_json_parse example_numstr ?aid] p2 p3
    by simp
  show ?thesis using a b c d by (simp only: zero_citation_info_fields simp_thms)
qed

text \<open>
  C8. On an absent list \<open>getInfluentialPapers\<close> returns the empty sequence and no
  error. On a list of raw paper records it returns, in the order of the input, exactly
  the records whose \<open>isInfluential\<close> is truthy, each reshaped into the attributes of an
  \<open>InfluentialPaper\<close> with the author names joined by a comma and a space (the empty
  string when the author list is missing).
\<close>

theorem getInfluentialPapers_filters:
  "getInfluentialPapers numstr JUndefined = Inr []
   \<and> (list_all raw_paper ps \<longrightarrow>
        getInfluentialPapers numstr (JArr ps)
          = Inr (map (spec_influential_paper numstr)
                   (filter (\<lambda>p. truthy (own_prop p (ascii ''isInfluential''))) ps)))"
proof -
  have a: "getInfluentialPapers numstr JUndefined = Inr []"
    by (simp add: getInfluentialPapers_def)
  have b: "getInfluentialPapers numstr (JArr ps)
          = Inr (map (spec_influential_paper numstr)
                   (filter (\<lambda>p. truthy (own_prop p (ascii ''isInfluential''))) ps))"
    if raw: "list_all raw_paper ps"
  proof -
    let ?kept = "filter (\<lambda>p. truthy (own_prop p (ascii ''isInfluential''))) ps"
    have f: "filter_err is_influential ps = Inr ?kept"
      by (rule filter_err_total) (use raw in \<open>auto simp: list_all_iff is_influential_raw\<close>)
    have m: "map_err (reshape numstr) ?kept = Inr (map (spec_influential_paper numstr) ?kept)"
      by (rule map_err_total) (use raw in \<open>auto simp: list_all_iff reshape_raw\<close>)
    show ?thesis by (simp add: getInfluentialPapers_def f m)
  qed
  show ?thesis using a b by blast
qed

theorem getInfluentialPapers_filters_witness:
  "getInfluentialPapers example_numstr (JArr example_papers)
     = Inr [\<lparr> ip_paperId = JStr (ascii ''p2''), ip_title = JUndefined, ip_url = JUndefined,
               ip_venue = JUndefined, ip_year = JUndefined, ip_authors = ascii ''A, B'',
               ip_arxivId = JUndefined, ip_doi = JUndefined, ip_isInfluential = JBool True,
               ip_citationCount = JUndefined, ip_intent = JUndefined \<rparr>]"
proof -
  have "map (spec_influential_paper example_numstr)
          (filter (\<lambda>p. truthy (own_prop p (ascii ''isInfluential''))) example_papers)
        = [\<lparr> ip_paperId = JStr (ascii ''p2''), ip_title = JUndefined, ip_url = JUndefined,
               ip_venue = JUndefined, ip_year = JUndefined, ip_authors = ascii ''A, B'',
               ip_arxivId = JUndefined, ip_doi = JUndefined, ip_isInfluential = JBool True,
               ip_citationCount = JUndefined, ip_intent = JUndefined \<rparr>]"
    by (simp add: example_papers_def spec_influential_paper_def spec_author_names_def ascii_def)
  then show ?thesis
    using getInfluentialPapers_filters[of example_numstr example_papers] raw_example_papers
    by simp
qed




end
